theory Spec2Isabelle
  imports Main "HOL-Library.Sublist"
begin

section \<open>Thread identities\<close>

text \<open>
  A running thread is named by a natural number. A value of \<^verbatim>\<open>std::thread::id\<close> is either
  the default-constructed identity, which names no thread, or the identity of a thread.
  \<^verbatim>\<open>std::this_thread::get_id()\<close> executed by thread \<open>t\<close> is \<open>ThreadId t\<close>; the calling
  thread is an explicit argument \<open>cur\<close> of every operation of the model.
\<close>

type_synonym thread = nat

datatype thread_id = NotAThread | ThreadId thread

definition this_thread_get_id :: "thread \<Rightarrow> thread_id" where
  "this_thread_get_id cur = ThreadId cur"

section \<open>The thread-bound guard\<close>

text \<open>
  \<^verbatim>\<open>ThreadBound<T>\<close> (agano.hpp, lines 105-209) has the members \<^verbatim>\<open>T object\<close> and
  \<^verbatim>\<open>mutable std::thread::id owner_id\<close>. Since \<open>owner_id\<close> is mutable, a const member
  function may write it, so every member function is modelled with explicit state passing:
  it takes the calling thread and the guard and returns its result together with the guard
  as the call leaves it.
\<close>

record 'a ThreadBound =
  object :: 'a
  owner_id :: thread_id

text \<open>Line 212: the static member \<^verbatim>\<open>unbound\<close> is a default-constructed identity.\<close>

definition unbound :: thread_id where
  "unbound = NotAThread"

text \<open>Lines 114-117 and 119-121: the two constructors from a payload. The deferred one
  leaves \<open>owner_id\<close> default-constructed.\<close>

definition ThreadBound_ctor :: "thread \<Rightarrow> 'a \<Rightarrow> 'a ThreadBound" where
  "ThreadBound_ctor cur obj = \<lparr>object = obj, owner_id = this_thread_get_id cur\<rparr>"

definition ThreadBound_ctor_defer :: "'a \<Rightarrow> 'a ThreadBound" where
  "ThreadBound_ctor_defer obj = \<lparr>object = obj, owner_id = NotAThread\<rparr>"

text \<open>Lines 181-187: the two observers.\<close>

definition is_unbound :: "thread \<Rightarrow> 'a ThreadBound \<Rightarrow> bool \<times> 'a ThreadBound" where
  "is_unbound cur g = (owner_id g = unbound, g)"

definition get_owner_id :: "thread \<Rightarrow> 'a ThreadBound \<Rightarrow> thread_id \<times> 'a ThreadBound" where
  "get_owner_id cur g = (owner_id g, g)"

text \<open>Lines 202-208: the private member \<^verbatim>\<open>get_owner_id_(rhs)\<close>, the identity a new guard
  made from \<open>rhs\<close> receives (a name cannot end in an underscore here, hence the suffix).
  The second component is \<open>rhs\<close> after the call.\<close>

definition get_owner_id_priv :: "thread \<Rightarrow> 'a ThreadBound \<Rightarrow> thread_id \<times> 'a ThreadBound" where
  "get_owner_id_priv cur rhs =
     (case is_unbound cur rhs of
        (u, rhs1) \<Rightarrow> if u then (unbound, rhs1) else (this_thread_get_id cur, rhs1))"

text \<open>Lines 123-126: the copy constructor. It returns the new guard and the source as the
  constructor leaves it.\<close>

definition ThreadBound_copy :: "thread \<Rightarrow> 'a ThreadBound \<Rightarrow> 'a ThreadBound \<times> 'a ThreadBound" where
  "ThreadBound_copy cur rhs =
     (case get_owner_id_priv cur rhs of
        (oid, rhs1) \<Rightarrow> (\<lparr>object = object rhs, owner_id = oid\<rparr>, rhs1))"

text \<open>
  Lines 139-144: the move constructor. Members are initialised in declaration order: first
  \<open>object\<close> from \<^verbatim>\<open>std::move(rhs.object)\<close>, which leaves the source payload in the
  moved-from state of \<open>T\<close> (the parameter \<open>moved_from\<close>; the identity for \<^verbatim>\<open>int\<close>), then
  \<open>owner_id\<close> from \<^verbatim>\<open>get_owner_id_(rhs)\<close>; the body then resets the source.
\<close>

definition ThreadBound_move ::
  "('a \<Rightarrow> 'a) \<Rightarrow> thread \<Rightarrow> 'a ThreadBound \<Rightarrow> 'a ThreadBound \<times> 'a ThreadBound" where
  "ThreadBound_move moved_from cur rhs =
     (let obj = object rhs;
          rhs1 = rhs\<lparr>object := moved_from (object rhs)\<rparr>
      in case get_owner_id_priv cur rhs1 of
           (oid, rhs2) \<Rightarrow> (\<lparr>object = obj, owner_id = oid\<rparr>, rhs2\<lparr>owner_id := unbound\<rparr>))"

text \<open>
  The message of line 198. \<^verbatim>\<open>std::format\<close> prints the two hash values, which are of type
  \<^verbatim>\<open>std::size_t\<close>, in decimal. The hash function \<^verbatim>\<open>std::hash<std::thread::id>\<close> is
  implementation-defined and is a parameter \<open>hasher\<close> of the model.
\<close>

definition digit_char :: "nat \<Rightarrow> char" where
  "digit_char d = ''0123456789'' ! d"

fun format_nat :: "nat \<Rightarrow> string" where
  "format_nat n = (if n < 10 then [digit_char n] else format_nat (n div 10) @ [digit_char (n mod 10)])"

definition violation_message :: "nat \<Rightarrow> nat \<Rightarrow> string" where
  "violation_message owner_hash caller_hash =
     ''Thread-safety violation occurred! The object is bound to one thread (id: ''
       @ format_nat owner_hash @ ''), but used in other (id: '' @ format_nat caller_hash @ '')''"

text \<open>
  Modelled from the spec: the macro \<^verbatim>\<open>EH_PANIC\<close> of \<^verbatim>\<open>fuwa/assert.hpp\<close>, which is not
  among the sources. The spec describes it as the fatal-report collaborator, invoked with a
  descriptive message, after which the operation is terminated with no recovery. A panic is
  therefore an error value carrying the message, and the operation that raised it returns
  nothing else.
\<close>

datatype error = Panic string

definition EH_PANIC :: "string \<Rightarrow> error + 'a" where
  "EH_PANIC msg = Inl (Panic msg)"

text \<open>Lines 190-200: the private member \<^verbatim>\<open>validate_\<close>. It is const, and writes the
  mutable \<open>owner_id\<close>.\<close>

definition validate_priv :: "(thread_id \<Rightarrow> nat) \<Rightarrow> thread \<Rightarrow> 'a ThreadBound \<Rightarrow> error + 'a ThreadBound" where
  "validate_priv hasher cur g =
     (case is_unbound cur g of
        (u, g1) \<Rightarrow>
          if u then Inr (g1\<lparr>owner_id := this_thread_get_id cur\<rparr>)
          else if this_thread_get_id cur \<noteq> owner_id g1 then
            EH_PANIC (violation_message (hasher (owner_id g1)) (hasher (this_thread_get_id cur)))
          else Inr g1)"

text \<open>
  Lines 161-179: \<^verbatim>\<open>operator*\<close> and \<^verbatim>\<open>operator->\<close>, const and non-const. All four run
  \<^verbatim>\<open>validate_\<close> and then hand out \<open>object\<close> (by reference or by pointer). The model returns
  the payload the reference designates, and the guard after the call.
\<close>

definition dereference :: "(thread_id \<Rightarrow> nat) \<Rightarrow> thread \<Rightarrow> 'a ThreadBound \<Rightarrow> error + ('a \<times> 'a ThreadBound)" where
  "dereference hasher cur g =
     (case validate_priv hasher cur g of
        Inl e \<Rightarrow> Inl e
      | Inr g1 \<Rightarrow> Inr (object g1, g1))"

definition member_access :: "(thread_id \<Rightarrow> nat) \<Rightarrow> thread \<Rightarrow> 'a ThreadBound \<Rightarrow> error + ('a \<times> 'a ThreadBound)" where
  "member_access hasher cur g =
     (case validate_priv hasher cur g of
        Inl e \<Rightarrow> Inl e
      | Inr g1 \<Rightarrow> Inr (object g1, g1))"

text \<open>A hash of thread identities to run examples with: thread \<open>t\<close> hashes to \<open>t + 100\<close>.\<close>

definition example_hasher :: "thread_id \<Rightarrow> nat" where
  "example_hasher i = (case i of NotAThread \<Rightarrow> 0 | ThreadId t \<Rightarrow> t + 100)"

text \<open>Lines 214-222: the two factory functions.\<close>

definition make_thread_bound :: "thread \<Rightarrow> 'a \<Rightarrow> 'a ThreadBound" where
  "make_thread_bound cur v = ThreadBound_ctor cur v"

definition make_thread_bound_defer :: "'a \<Rightarrow> 'a ThreadBound" where
  "make_thread_bound_defer v = ThreadBound_ctor_defer v"

text \<open>
  \<^verbatim>\<open>test1\<close> of example.cpp (lines 10-28): \<open>counter1\<close> is made on the thread \<open>main\<close>, the
  lambda runs on the thread \<open>t\<close>. The result lists the values of the three assertions, in
  the order of the source.
\<close>

definition test1 :: "thread \<Rightarrow> thread \<Rightarrow> bool list" where
  "test1 main t =
     (let counter1 = make_thread_bound main (42::int) in
      case ThreadBound_copy t counter1 of (counter2, counter1a) \<Rightarrow>
      let a1 = (fst (get_owner_id t counter1a) \<noteq> fst (get_owner_id t counter2)) in
      case ThreadBound_move (\<lambda>v. v) t counter1a of (counter3, counter1b) \<Rightarrow>
      let a2 = fst (is_unbound t counter1b);
          a3 = (fst (get_owner_id t counter2) = fst (get_owner_id t counter3))
      in [a1, a2, a3])"

text \<open>
  \<^verbatim>\<open>test2\<close> of example.cpp (lines 30-53): \<open>counter\<close> is made with deferred binding on the
  thread \<open>main\<close> and moved into the closure there; the closure runs on the thread \<open>t\<close>.
  \<^verbatim>\<open>*counter1 += 50\<close> dereferences and then writes the payload through the reference.
  The result lists the values of the eight assertions, unless an access panics.
\<close>

definition test2 :: "(thread_id \<Rightarrow> nat) \<Rightarrow> thread \<Rightarrow> thread \<Rightarrow> error + bool list" where
  "test2 hasher main t =
     (let counter = make_thread_bound_defer (42::int) in
      case ThreadBound_move (\<lambda>v. v) main counter of (counter1, counter0) \<Rightarrow>
      (case ThreadBound_copy t counter1 of (counter2, counter1a) \<Rightarrow>
      (let a1 = (fst (get_owner_id t counter1a) = fst (get_owner_id t counter2));
           a2 = fst (is_unbound t counter1a)
       in
       (case dereference hasher t counter1a of
          Inl e \<Rightarrow> Inl e
        | Inr (v, counter1b) \<Rightarrow>
           (let counter1c = counter1b\<lparr>object := v + 50\<rparr>;
                a3 = (fst (get_owner_id t counter1c) = this_thread_get_id t);
                a4 = fst (is_unbound t counter2)
            in
            (case dereference hasher t counter2 of
               Inl e \<Rightarrow> Inl e
             | Inr (w, counter2a) \<Rightarrow>
                (let a5 = (w = 42);
                     a6 = (\<not> fst (is_unbound t counter2a))
                 in
                 (case ThreadBound_move (\<lambda>v. v) t counter1c of (counter3, counter1d) \<Rightarrow>
                    (let a7 = fst (is_unbound t counter1d);
                         a8 = (fst (get_owner_id t counter2a) = fst (get_owner_id t counter3))
                     in Inr [a1, a2, a3, a4, a5, a6, a7, a8])))))))))"

text \<open>
  \<^verbatim>\<open>intentional_error\<close> of example.cpp (lines 55-67), up to the access of the spawned
  thread \<open>t\<close>: \<open>counter\<close> is made on \<open>main\<close>, incremented there, and dereferenced on \<open>t\<close>.
\<close>

definition intentional_error :: "(thread_id \<Rightarrow> nat) \<Rightarrow> thread \<Rightarrow> thread \<Rightarrow> error + int" where
  "intentional_error hasher main t =
     (let counter = make_thread_bound main (0::int) in
      case dereference hasher main counter of
        Inl e \<Rightarrow> Inl e
      | Inr (v, counter1) \<Rightarrow>
         (let counter2 = counter1\<lparr>object := v + 10\<rparr> in
          case dereference hasher t counter2 of
            Inl e \<Rightarrow> Inl e
          | Inr (w, counter3) \<Rightarrow> Inr w))"

section \<open>The capability classifier\<close>

text \<open>
  The classifier (agano.hpp, lines 14-28 and 224-234) is evaluated on types, at compile
  time. Types are modelled as terms: \<^verbatim>\<open>int\<close>, \<^verbatim>\<open>std::mutex\<close>, any other class (numbered),
  the three class templates of the header, and the qualifiers \<^verbatim>\<open>const T\<close>, \<^verbatim>\<open>T&\<close> and
  \<^verbatim>\<open>T&&\<close>, so that \<^verbatim>\<open>const T&\<close> is \<open>LRef (Const T)\<close>.
\<close>

datatype cpp_type =
    IntT
  | StdMutexT
  | ClassT nat
  | SyncedT cpp_type cpp_type
  | LockedT cpp_type cpp_type
  | ThreadBoundT cpp_type
  | Const cpp_type
  | LRef cpp_type
  | RRef cpp_type

text \<open>
  What the header cannot know is a parameter: for the types it does not declare, whether
  they satisfy \<^verbatim>\<open>std::movable\<close> and whether they have \<^verbatim>\<open>lock()\<close> and \<^verbatim>\<open>unlock()\<close>, and
  the specialisations of \<^verbatim>\<open>send_tag_v\<close> written outside the header. \<open>header_only\<close> is a
  program that adds nothing to the header.
\<close>

record env =
  other_movable :: "cpp_type \<Rightarrow> bool"
  other_lockable :: "cpp_type \<Rightarrow> bool"
  user_send_tag :: "cpp_type \<Rightarrow> bool"

definition header_only :: env where
  "header_only =
     \<lparr>other_movable = (\<lambda>T. False), other_lockable = (\<lambda>T. False), user_send_tag = (\<lambda>T. False)\<rparr>"

text \<open>\<^verbatim>\<open>std::remove_cvref_t\<close>: drop the reference, then the top-level const.\<close>

fun remove_reference_t :: "cpp_type \<Rightarrow> cpp_type" where
  "remove_reference_t (LRef T) = T"
| "remove_reference_t (RRef T) = T"
| "remove_reference_t T = T"

fun remove_cv_t :: "cpp_type \<Rightarrow> cpp_type" where
  "remove_cv_t (Const T) = T"
| "remove_cv_t T = T"

definition remove_cvref_t :: "cpp_type \<Rightarrow> cpp_type" where
  "remove_cvref_t T = remove_cv_t (remove_reference_t T)"

text \<open>
  \<^verbatim>\<open>std::movable\<close>. It holds of \<^verbatim>\<open>int\<close> and fails for \<^verbatim>\<open>std::mutex\<close> and for every
  reference type, which is not an object type. \<^verbatim>\<open>Synced\<close> (lines 79-80) and \<^verbatim>\<open>Locked\<close>
  (lines 42-43) delete their move constructor and move assignment; \<^verbatim>\<open>ThreadBound\<close>
  declares both (lines 139 and 146).
\<close>

fun movable :: "env \<Rightarrow> cpp_type \<Rightarrow> bool" where
  "movable E IntT = True"
| "movable E StdMutexT = False"
| "movable E (SyncedT T M) = False"
| "movable E (LockedT T M) = False"
| "movable E (ThreadBoundT T) = True"
| "movable E (LRef T) = False"
| "movable E (RRef T) = False"
| "movable E T = other_movable E T"

text \<open>
  Lines 23-28: the concept \<^verbatim>\<open>Mutex\<close> asks for the members \<^verbatim>\<open>lock()\<close> and \<^verbatim>\<open>unlock()\<close>.
  \<^verbatim>\<open>std::mutex\<close> has them; \<^verbatim>\<open>Synced\<close> has \<^verbatim>\<open>lock()\<close> only, \<^verbatim>\<open>Locked\<close>, \<^verbatim>\<open>ThreadBound\<close>
  and \<^verbatim>\<open>int\<close> have neither.
\<close>

fun Mutex :: "env \<Rightarrow> cpp_type \<Rightarrow> bool" where
  "Mutex E StdMutexT = True"
| "Mutex E IntT = False"
| "Mutex E (SyncedT T M) = False"
| "Mutex E (LockedT T M) = False"
| "Mutex E (ThreadBoundT T) = False"
| "Mutex E T = other_lockable E T"

text \<open>
  Lines 14-18 and 224-234: the variable template \<^verbatim>\<open>send_tag_v\<close> with its four
  specialisations, and the concept \<^verbatim>\<open>Send\<close>. The three specialisations for \<^verbatim>\<open>Synced\<close> are
  constrained by \<^verbatim>\<open>Send T\<close> and \<^verbatim>\<open>Mutex M\<close>, so the two are mutually recursive. Where no
  specialisation of the header applies, the value is the one given outside the header, which
  is \<^verbatim>\<open>false\<close>, the primary template, when there is none.
\<close>

function (sequential) send_tag_v :: "env \<Rightarrow> cpp_type \<Rightarrow> bool"
  and Send :: "env \<Rightarrow> cpp_type \<Rightarrow> bool" where
  "send_tag_v E IntT = True"
| "send_tag_v E (SyncedT T M) =
     (if Send E T \<and> Mutex E M then True else user_send_tag E (SyncedT T M))"
| "send_tag_v E (LRef (SyncedT T M)) =
     (if Send E T \<and> Mutex E M then True else user_send_tag E (LRef (SyncedT T M)))"
| "send_tag_v E (LRef (Const (SyncedT T M))) =
     (if Send E T \<and> Mutex E M then True else user_send_tag E (LRef (Const (SyncedT T M))))"
| "send_tag_v E T = user_send_tag E T"
| "Send E T = (send_tag_v E (remove_cvref_t T) \<and> movable E (remove_cvref_t T))"
  by pat_completeness auto
termination
proof (relation "measure (\<lambda>x. case x of Inl (E, T) \<Rightarrow> 2 * size T | Inr (E, T) \<Rightarrow> 2 * size T + 1)")
  fix E :: env and T :: cpp_type
  have cv: "size (remove_cv_t U) \<le> size U" for U
    by (cases U rule: remove_cv_t.cases) simp_all
  have "size (remove_reference_t T) \<le> size T"
    by (cases T rule: remove_reference_t.cases) simp_all
  with cv [of "remove_reference_t T"] have "size (remove_cvref_t T) \<le> size T"
    unfolding remove_cvref_t_def by (rule order_trans)
  then show "(Inl (E, remove_cvref_t T), Inr (E, T))
      \<in> measure (\<lambda>x. case x of Inl (E, T) \<Rightarrow> 2 * size T | Inr (E, T) \<Rightarrow> 2 * size T + 1)"
    by simp
qed simp_all

text \<open>Lines 20-21: the concept \<^verbatim>\<open>Sync\<close> reads the tag of \<^verbatim>\<open>const std::remove_cvref_t<T>&\<close>.\<close>

definition Sync :: "env \<Rightarrow> cpp_type \<Rightarrow> bool" where
  "Sync E T = send_tag_v E (LRef (Const (remove_cvref_t T)))"

section \<open>The lock owner and its scoped guard\<close>

text \<open>
  \<^verbatim>\<open>Locked\<close> holds a reference \<^verbatim>\<open>T& ref_\<close>, so the payload lives in a store and a reference
  is an address. The store has the payload objects and the \<^verbatim>\<open>std::mutex\<close> objects, a mutex
  being held (\<open>True\<close>) or free.
\<close>

type_synonym addr = nat

record 'a memory =
  payloads :: "addr \<Rightarrow> 'a option"
  mutexes :: "addr \<Rightarrow> bool option"

definition load :: "'a memory \<Rightarrow> addr \<Rightarrow> 'a option" where
  "load mem a = payloads mem a"

definition store :: "'a memory \<Rightarrow> addr \<Rightarrow> 'a \<Rightarrow> 'a memory" where
  "store mem a v = mem\<lparr>payloads := (payloads mem)(a \<mapsto> v)\<rparr>"

text \<open>
  \<^verbatim>\<open>std::mutex::lock\<close> returns once the mutex is free, holding it; on a held mutex it
  does not return, which is the value \<open>None\<close> (nothing else runs in this sequential model).
  \<^verbatim>\<open>std::mutex::unlock\<close> frees it.
\<close>

definition mutex_lock :: "'a memory \<Rightarrow> addr \<Rightarrow> 'a memory option" where
  "mutex_lock mem m =
     (case mutexes mem m of
        Some False \<Rightarrow> Some (mem\<lparr>mutexes := (mutexes mem)(m \<mapsto> True)\<rparr>)
      | _ \<Rightarrow> None)"

definition mutex_unlock :: "'a memory \<Rightarrow> addr \<Rightarrow> 'a memory" where
  "mutex_unlock mem m = mem\<lparr>mutexes := (mutexes mem)(m \<mapsto> False)\<rparr>"

text \<open>
  Lines 67-92: a \<^verbatim>\<open>Synced\<close> object is its two members \<^verbatim>\<open>mutex_\<close> and \<^verbatim>\<open>owned_\<close>, each at
  its address. Lines 31-65: a \<^verbatim>\<open>Locked\<close> object is the reference \<^verbatim>\<open>ref_\<close> and the
  \<^verbatim>\<open>std::lock_guard\<close> \<^verbatim>\<open>lock_\<close>, which records the mutex it holds. (Names cannot end in an
  underscore here, hence the suffix.)
\<close>

record Synced =
  mutex_priv :: addr
  owned_priv :: addr

record Locked =
  ref_priv :: addr
  lock_priv :: addr

text \<open>Lines 75-77: the constructor of \<^verbatim>\<open>Synced\<close> from a payload, for an object placed at the
  addresses \<open>am\<close> and \<open>ao\<close>.\<close>

definition Synced_ctor :: "'a memory \<Rightarrow> addr \<Rightarrow> addr \<Rightarrow> 'a \<Rightarrow> Synced \<times> 'a memory" where
  "Synced_ctor mem am ao rhs =
     (\<lparr>mutex_priv = am, owned_priv = ao\<rparr>,
      mem\<lparr>payloads := (payloads mem)(ao \<mapsto> rhs), mutexes := (mutexes mem)(am \<mapsto> False)\<rparr>)"

text \<open>Lines 37-40: the constructor of \<^verbatim>\<open>Locked\<close>; constructing the \<^verbatim>\<open>std::lock_guard\<close>
  locks the mutex. Line 48: the destructor destroys the \<^verbatim>\<open>std::lock_guard\<close>, which unlocks.\<close>

definition Locked_ctor :: "'a memory \<Rightarrow> addr \<Rightarrow> addr \<Rightarrow> (Locked \<times> 'a memory) option" where
  "Locked_ctor mem ref mutex =
     (case mutex_lock mem mutex of
        None \<Rightarrow> None
      | Some mem1 \<Rightarrow> Some (\<lparr>ref_priv = ref, lock_priv = mutex\<rparr>, mem1))"

definition Locked_dtor :: "'a memory \<Rightarrow> Locked \<Rightarrow> 'a memory" where
  "Locked_dtor mem l = mutex_unlock mem (lock_priv l)"

text \<open>Lines 50-64: \<^verbatim>\<open>operator*\<close> returns \<^verbatim>\<open>ref_\<close> and \<^verbatim>\<open>operator->\<close> returns \<^verbatim>\<open>&ref_\<close>,
  with no check: both designate the object \<^verbatim>\<open>ref_\<close> refers to.\<close>

definition Locked_deref :: "Locked \<Rightarrow> addr" where
  "Locked_deref l = ref_priv l"

definition Locked_arrow :: "Locked \<Rightarrow> addr" where
  "Locked_arrow l = ref_priv l"

text \<open>Lines 87-90: \<^verbatim>\<open>Synced::lock\<close>.\<close>

definition Synced_lock :: "'a memory \<Rightarrow> Synced \<Rightarrow> (Locked \<times> 'a memory) option" where
  "Synced_lock mem s = Locked_ctor mem (owned_priv s) (mutex_priv s)"

text \<open>An example: in a store with nothing in it, a lock owner with the payload 42 is
  constructed, its mutex at address 0 and its payload at address 1.\<close>

definition empty_memory :: "'a memory" where
  "empty_memory = \<lparr>payloads = Map.empty, mutexes = Map.empty\<rparr>"

definition example_synced :: "Synced \<times> int memory" where
  "example_synced = Synced_ctor empty_memory 0 1 42"

section \<open>Threads that share a lock owner\<close>

text \<open>
  Any number of threads use one lock owner. A run is a schedule: the list, in the order in
  which they happen, of the steps the threads take on the owner. \<open>Acquire t\<close> is thread
  \<open>t\<close> in a call of \<^verbatim>\<open>lock()\<close> (lines 87-90); \<open>Destroy t\<close> is the guard that \<open>t\<close> acquired
  last going out of scope (the destructor, line 48). The state is the store and the guards
  that are live, each with the thread that holds it, the latest first.
\<close>

datatype event = Acquire thread | Destroy thread

record 'm sys =
  sys_mem :: 'm
  live :: "(thread \<times> Locked) list"

text \<open>
  One step of a schedule, for the two operations of an owner, which depend on the lockable
  \<^verbatim>\<open>M\<close> that \<^verbatim>\<open>Synced<T, M>\<close> and \<^verbatim>\<open>Locked<T, M>\<close> are instantiated with. A call of \<^verbatim>\<open>lock()\<close>
  that cannot return yet leaves the state as it is: the thread goes on waiting. A thread
  with no live guard has none to destroy.
\<close>

definition sched_step ::
  "(thread \<Rightarrow> 'm \<Rightarrow> (Locked \<times> 'm) option) \<Rightarrow> (thread \<Rightarrow> 'm \<Rightarrow> Locked \<Rightarrow> 'm)
     \<Rightarrow> 'm sys \<Rightarrow> event \<Rightarrow> 'm sys" where
  "sched_step acquire destroy st ev =
     (case ev of
        Acquire t \<Rightarrow>
          (case acquire t (sys_mem st) of
             None \<Rightarrow> st
           | Some (g, m1) \<Rightarrow> \<lparr>sys_mem = m1, live = (t, g) # live st\<rparr>)
      | Destroy t \<Rightarrow>
          (case find (\<lambda>h. fst h = t) (live st) of
             None \<Rightarrow> st
           | Some h \<Rightarrow> \<lparr>sys_mem = destroy t (sys_mem st) (snd h), live = remove1 h (live st)\<rparr>))"

text \<open>The steps and the runs of an owner over \<^verbatim>\<open>std::mutex\<close>, the default \<^verbatim>\<open>M\<close> (lines 30
  and 67), from a store in which no guard is live yet.\<close>

definition Synced_step :: "Synced \<Rightarrow> 'a memory sys \<Rightarrow> event \<Rightarrow> 'a memory sys" where
  "Synced_step s = sched_step (\<lambda>t mem. Synced_lock mem s) (\<lambda>t mem g. Locked_dtor mem g)"

definition Synced_run :: "Synced \<Rightarrow> 'a memory \<Rightarrow> event list \<Rightarrow> 'a memory sys" where
  "Synced_run s mem evs = foldl (Synced_step s) \<lparr>sys_mem = mem, live = []\<rparr> evs"

text \<open>
  In every state of a run of an owner over \<^verbatim>\<open>std::mutex\<close>, either no guard is live and the
  mutex is free, or one guard over the owner is live and the mutex is held.
\<close>

definition exclusive :: "Synced \<Rightarrow> 'a memory sys \<Rightarrow> bool" where
  "exclusive s st =
     (case live st of
        [] \<Rightarrow> mutexes (sys_mem st) (mutex_priv s) = Some False
      | [h] \<Rightarrow> snd h = \<lparr>ref_priv = owned_priv s, lock_priv = mutex_priv s\<rparr>
                 \<and> mutexes (sys_mem st) (mutex_priv s) = Some True
      | _ \<Rightarrow> False)"

text \<open>
  \<^verbatim>\<open>std::recursive_mutex\<close> has \<^verbatim>\<open>lock()\<close> and \<^verbatim>\<open>unlock()\<close> and \<^verbatim>\<open>std::lock_guard\<close> accepts
  it, so it satisfies the concept \<^verbatim>\<open>Mutex\<close> (lines 23-28) and \<^verbatim>\<open>Synced<T,
  std::recursive_mutex>\<close> is an instance of the template. Such a mutex is unowned, or owned
  by a thread that has locked it a number of times: \<^verbatim>\<open>lock()\<close> by the owning thread returns
  at once and counts one more, by another thread it waits; \<^verbatim>\<open>unlock()\<close> by the owning thread
  counts one less and releases the mutex at zero. The constructor, \<^verbatim>\<open>lock()\<close> and the
  destructor below are those of lines 75-77, 37-40, 87-90 and 48 for this \<^verbatim>\<open>M\<close>.
\<close>

datatype recursive_mutex = Unowned | Owned thread nat

record 'a rmemory =
  rpayloads :: "addr \<Rightarrow> 'a option"
  rmutexes :: "addr \<Rightarrow> recursive_mutex option"

definition recursive_mutex_lock :: "thread \<Rightarrow> 'a rmemory \<Rightarrow> addr \<Rightarrow> 'a rmemory option" where
  "recursive_mutex_lock t mem m =
     (case rmutexes mem m of
        Some Unowned \<Rightarrow> Some (mem\<lparr>rmutexes := (rmutexes mem)(m \<mapsto> Owned t 1)\<rparr>)
      | Some (Owned u n) \<Rightarrow>
          if u = t then Some (mem\<lparr>rmutexes := (rmutexes mem)(m \<mapsto> Owned t (n + 1))\<rparr>) else None
      | None \<Rightarrow> None)"

definition recursive_mutex_unlock :: "thread \<Rightarrow> 'a rmemory \<Rightarrow> addr \<Rightarrow> 'a rmemory" where
  "recursive_mutex_unlock t mem m =
     (case rmutexes mem m of
        Some (Owned u n) \<Rightarrow>
          if u = t then mem\<lparr>rmutexes := (rmutexes mem)(m \<mapsto> (if n \<le> 1 then Unowned else Owned t (n - 1)))\<rparr>
          else mem
      | _ \<Rightarrow> mem)"

definition Synced_ctor_recursive :: "'a rmemory \<Rightarrow> addr \<Rightarrow> addr \<Rightarrow> 'a \<Rightarrow> Synced \<times> 'a rmemory" where
  "Synced_ctor_recursive mem am ao rhs =
     (\<lparr>mutex_priv = am, owned_priv = ao\<rparr>,
      mem\<lparr>rpayloads := (rpayloads mem)(ao \<mapsto> rhs), rmutexes := (rmutexes mem)(am \<mapsto> Unowned)\<rparr>)"

definition Locked_ctor_recursive ::
  "thread \<Rightarrow> 'a rmemory \<Rightarrow> addr \<Rightarrow> addr \<Rightarrow> (Locked \<times> 'a rmemory) option" where
  "Locked_ctor_recursive t mem ref mutex =
     (case recursive_mutex_lock t mem mutex of
        None \<Rightarrow> None
      | Some mem1 \<Rightarrow> Some (\<lparr>ref_priv = ref, lock_priv = mutex\<rparr>, mem1))"

definition Locked_dtor_recursive :: "thread \<Rightarrow> 'a rmemory \<Rightarrow> Locked \<Rightarrow> 'a rmemory" where
  "Locked_dtor_recursive t mem l = recursive_mutex_unlock t mem (lock_priv l)"

definition Synced_lock_recursive ::
  "thread \<Rightarrow> 'a rmemory \<Rightarrow> Synced \<Rightarrow> (Locked \<times> 'a rmemory) option" where
  "Synced_lock_recursive t mem s = Locked_ctor_recursive t mem (owned_priv s) (mutex_priv s)"

definition Synced_run_recursive :: "Synced \<Rightarrow> 'a rmemory \<Rightarrow> event list \<Rightarrow> 'a rmemory sys" where
  "Synced_run_recursive s mem evs =
     foldl (sched_step (\<lambda>t mem. Synced_lock_recursive t mem s) Locked_dtor_recursive)
       \<lparr>sys_mem = mem, live = []\<rparr> evs"

definition example_synced_recursive :: "Synced \<times> int rmemory" where
  "example_synced_recursive =
     Synced_ctor_recursive \<lparr>rpayloads = Map.empty, rmutexes = Map.empty\<rparr> 0 1 42"

section \<open>Properties of the thread-bound guard\<close>

lemma is_unbound_simp [simp]: "is_unbound cur g = (owner_id g = NotAThread, g)"
  by (simp add: is_unbound_def unbound_def)

lemma get_owner_id_simp [simp]: "get_owner_id cur g = (owner_id g, g)"
  by (simp add: get_owner_id_def)

lemma get_owner_id_priv_simp:
  "get_owner_id_priv cur rhs = (if owner_id rhs = NotAThread then NotAThread else ThreadId cur, rhs)"
  by (simp add: get_owner_id_priv_def unbound_def this_thread_get_id_def)

lemma ThreadBound_copy_simp:
  "ThreadBound_copy cur rhs =
     (\<lparr>object = object rhs,
       owner_id = (if owner_id rhs = NotAThread then NotAThread else ThreadId cur)\<rparr>, rhs)"
  by (simp add: ThreadBound_copy_def get_owner_id_priv_simp)

lemma ThreadBound_move_simp:
  "ThreadBound_move mf cur rhs =
     (\<lparr>object = object rhs,
       owner_id = (if owner_id rhs = NotAThread then NotAThread else ThreadId cur)\<rparr>,
      \<lparr>object = mf (object rhs), owner_id = NotAThread\<rparr>)"
  by (simp add: ThreadBound_move_def get_owner_id_priv_simp unbound_def Let_def)

lemma validate_priv_simp:
  "validate_priv hasher cur g =
     (if owner_id g = NotAThread then Inr (g\<lparr>owner_id := ThreadId cur\<rparr>)
      else if owner_id g = ThreadId cur then Inr g
      else Inl (Panic (violation_message (hasher (owner_id g)) (hasher (ThreadId cur)))))"
  by (auto simp add: validate_priv_def this_thread_get_id_def EH_PANIC_def)

lemma violation_message_mentions:
  "sublist (format_nat a) (violation_message a b) \<and> sublist (format_nat b) (violation_message a b)"
proof
  show "sublist (format_nat a) (violation_message a b)"
    unfolding violation_message_def by (rule sublist_appendI)
next
  have "sublist (format_nat b)
          ((''Thread-safety violation occurred! The object is bound to one thread (id: ''
              @ format_nat a @ ''), but used in other (id: '') @ format_nat b @ '')'')"
    by (rule sublist_appendI)
  then show "sublist (format_nat b) (violation_message a b)"
    unfolding violation_message_def by (simp only: append_assoc)
qed

text \<open>
  The assertions of \<^verbatim>\<open>test1\<close> in example.cpp all hold when the lambda runs on another thread
  than the one that made \<open>counter1\<close>. The third one expects the guard moved from \<open>counter1\<close>,
  which was bound to \<open>main\<close>, to have the same owner as a copy taken on \<open>t\<close>.
\<close>

lemma test1_passes: "main \<noteq> t \<Longrightarrow> test1 main t = [True, True, True]"
  by (simp add: test1_def make_thread_bound_def ThreadBound_ctor_def this_thread_get_id_def
      ThreadBound_copy_simp ThreadBound_move_simp)

lemma test2_passes:
  "test2 hasher main t = Inr [True, True, True, True, True, True, True, True]"
  by (simp add: test2_def make_thread_bound_defer_def ThreadBound_ctor_defer_def
      this_thread_get_id_def ThreadBound_copy_simp ThreadBound_move_simp dereference_def
      validate_priv_simp)

lemma intentional_error_panics:
  "main \<noteq> t \<Longrightarrow>
     intentional_error hasher main t =
       Inl (Panic (violation_message (hasher (ThreadId main)) (hasher (ThreadId t))))"
  by (simp add: intentional_error_def make_thread_bound_def ThreadBound_ctor_def
      this_thread_get_id_def dereference_def validate_priv_simp)

text \<open>
  C3, copy law. Copying a guard \<open>g\<close> on any thread \<open>c\<close> yields a new guard that is unbound
  if \<open>g\<close> was unbound and is otherwise bound to \<open>c\<close>, the thread that copies, whatever the
  owner recorded in \<open>g\<close>; the payload of the new guard equals the payload of \<open>g\<close>. The
  binding state is read with the observers, called from an arbitrary thread \<open>a\<close>.
\<close>

theorem copy_law:
  "(fst (is_unbound a g) \<longrightarrow> fst (is_unbound a (fst (ThreadBound_copy c g))))
   \<and> (\<not> fst (is_unbound a g) \<longrightarrow>
        \<not> fst (is_unbound a (fst (ThreadBound_copy c g)))
        \<and> fst (get_owner_id a (fst (ThreadBound_copy c g))) = this_thread_get_id c)
   \<and> object (fst (ThreadBound_copy c g)) = object g"
  by (simp add: ThreadBound_copy_simp this_thread_get_id_def)

theorem copy_law_witness:
  "fst (is_unbound 1 (make_thread_bound_defer (42::int)))
   \<and> fst (is_unbound 1 (fst (ThreadBound_copy 2 (make_thread_bound_defer (42::int)))))
   \<and> \<not> fst (is_unbound 1 (make_thread_bound 1 (42::int)))
   \<and> \<not> fst (is_unbound 1 (fst (ThreadBound_copy 2 (make_thread_bound 1 (42::int)))))
   \<and> fst (get_owner_id 1 (fst (ThreadBound_copy 2 (make_thread_bound 1 (42::int))))) = ThreadId 2
   \<and> object (fst (ThreadBound_copy 2 (make_thread_bound 1 (42::int)))) = 42"
  using copy_law [of 1 "make_thread_bound_defer (42::int)" 2]
    copy_law [of 1 "make_thread_bound 1 (42::int)" 2]
  by (simp add: make_thread_bound_def make_thread_bound_defer_def ThreadBound_ctor_def
      ThreadBound_ctor_defer_def this_thread_get_id_def)

text \<open>
  C9, the copy constructor leaves its source alone. After copy-constructing from \<open>g\<close> on
  any thread, \<open>g\<close> is what it was: same owner identity, same payload.
\<close>

theorem copy_preserves_source:
  "snd (ThreadBound_copy c g) = g
   \<and> owner_id (snd (ThreadBound_copy c g)) = owner_id g
   \<and> object (snd (ThreadBound_copy c g)) = object g"
  by (simp add: ThreadBound_copy_simp)

text \<open>
  C8, observer purity. \<^verbatim>\<open>is_unbound()\<close> and \<^verbatim>\<open>get_owner_id()\<close>, called from any thread,
  leave the guard as it was: owner identity and payload are unchanged.
\<close>

theorem observers_pure:
  "snd (is_unbound cur g) = g \<and> snd (get_owner_id cur g) = g
   \<and> owner_id (snd (is_unbound cur g)) = owner_id g \<and> object (snd (is_unbound cur g)) = object g
   \<and> owner_id (snd (get_owner_id cur g)) = owner_id g \<and> object (snd (get_owner_id cur g)) = object g"
  by simp

text \<open>
  C2, access semantics. Every dereference and every member access first checks ownership.
  On an unbound guard it binds the guard to the calling thread and returns the payload; on a
  guard bound to the calling thread it returns the payload and leaves the guard as it is;
  on a guard bound to another thread it returns no payload: the result is the panic, whose
  message contains the printed hash of the recorded owner and the printed hash of the
  calling thread.
\<close>

theorem access_semantics:
  "(fst (is_unbound cur g) \<longrightarrow>
      dereference hasher cur g = Inr (object g, g\<lparr>owner_id := this_thread_get_id cur\<rparr>)
      \<and> member_access hasher cur g = Inr (object g, g\<lparr>owner_id := this_thread_get_id cur\<rparr>))
   \<and> (fst (get_owner_id cur g) = this_thread_get_id cur \<longrightarrow>
      dereference hasher cur g = Inr (object g, g)
      \<and> member_access hasher cur g = Inr (object g, g))
   \<and> (\<not> fst (is_unbound cur g) \<and> fst (get_owner_id cur g) \<noteq> this_thread_get_id cur \<longrightarrow>
      dereference hasher cur g =
        Inl (Panic (violation_message (hasher (fst (get_owner_id cur g)))
                      (hasher (this_thread_get_id cur))))
      \<and> member_access hasher cur g = dereference hasher cur g
      \<and> sublist (format_nat (hasher (fst (get_owner_id cur g))))
          (violation_message (hasher (fst (get_owner_id cur g))) (hasher (this_thread_get_id cur)))
      \<and> sublist (format_nat (hasher (this_thread_get_id cur)))
          (violation_message (hasher (fst (get_owner_id cur g))) (hasher (this_thread_get_id cur))))"
proof (intro conjI impI)
  assume "fst (is_unbound cur g)"
  then have u: "owner_id g = NotAThread" by simp
  show "dereference hasher cur g = Inr (object g, g\<lparr>owner_id := this_thread_get_id cur\<rparr>)"
    using u by (simp add: dereference_def validate_priv_simp this_thread_get_id_def)
  show "member_access hasher cur g = Inr (object g, g\<lparr>owner_id := this_thread_get_id cur\<rparr>)"
    using u by (simp add: member_access_def validate_priv_simp this_thread_get_id_def)
next
  assume "fst (get_owner_id cur g) = this_thread_get_id cur"
  then have b: "owner_id g = ThreadId cur" by (simp add: this_thread_get_id_def)
  show "dereference hasher cur g = Inr (object g, g)"
    using b by (simp add: dereference_def validate_priv_simp)
  show "member_access hasher cur g = Inr (object g, g)"
    using b by (simp add: member_access_def validate_priv_simp)
next
  assume "\<not> fst (is_unbound cur g) \<and> fst (get_owner_id cur g) \<noteq> this_thread_get_id cur"
  then have o: "owner_id g \<noteq> NotAThread" "owner_id g \<noteq> ThreadId cur"
    by (simp_all add: this_thread_get_id_def)
  show "dereference hasher cur g =
      Inl (Panic (violation_message (hasher (fst (get_owner_id cur g)))
                    (hasher (this_thread_get_id cur))))"
    using o by (simp add: dereference_def validate_priv_simp this_thread_get_id_def)
  show "member_access hasher cur g = dereference hasher cur g"
    by (simp add: dereference_def member_access_def)
  show "sublist (format_nat (hasher (fst (get_owner_id cur g))))
      (violation_message (hasher (fst (get_owner_id cur g))) (hasher (this_thread_get_id cur)))"
    using violation_message_mentions by blast
  show "sublist (format_nat (hasher (this_thread_get_id cur)))
      (violation_message (hasher (fst (get_owner_id cur g))) (hasher (this_thread_get_id cur)))"
    using violation_message_mentions by blast
qed

text \<open>
  The witness runs the life of a guard made with deferred binding, with the payload 42 and
  a hash that sends thread \<open>t\<close> to \<open>t + 100\<close>: the first access, from thread 7, binds the
  guard to thread 7; a second access from thread 7 succeeds; an access from thread 8 panics,
  and the message names 107 and 108.
\<close>

theorem access_semantics_witness:
  "fst (is_unbound 7 (make_thread_bound_defer (42::int)))
   \<and> dereference example_hasher 7 (make_thread_bound_defer (42::int))
       = Inr (42, \<lparr>object = 42, owner_id = ThreadId 7\<rparr>)
   \<and> fst (get_owner_id 7 \<lparr>object = 42::int, owner_id = ThreadId 7\<rparr>) = this_thread_get_id 7
   \<and> dereference example_hasher 7 \<lparr>object = 42::int, owner_id = ThreadId 7\<rparr>
       = Inr (42, \<lparr>object = 42, owner_id = ThreadId 7\<rparr>)
   \<and> \<not> fst (is_unbound 8 \<lparr>object = 42::int, owner_id = ThreadId 7\<rparr>)
   \<and> fst (get_owner_id 8 \<lparr>object = 42::int, owner_id = ThreadId 7\<rparr>) \<noteq> this_thread_get_id 8
   \<and> dereference example_hasher 8 \<lparr>object = 42::int, owner_id = ThreadId 7\<rparr>
       = Inl (Panic ''Thread-safety violation occurred! The object is bound to one thread (id: 107), but used in other (id: 108)'')
   \<and> member_access example_hasher 8 \<lparr>object = 42::int, owner_id = ThreadId 7\<rparr>
       = Inl (Panic ''Thread-safety violation occurred! The object is bound to one thread (id: 107), but used in other (id: 108)'')"
  using access_semantics [of 7 "make_thread_bound_defer (42::int)" example_hasher]
    access_semantics [of 7 "\<lparr>object = 42::int, owner_id = ThreadId 7\<rparr>" example_hasher]
    access_semantics [of 8 "\<lparr>object = 42::int, owner_id = ThreadId 7\<rparr>" example_hasher]
  by (simp add: make_thread_bound_defer_def ThreadBound_ctor_defer_def this_thread_get_id_def
      example_hasher_def violation_message_def digit_char_def)

text \<open>
  C1, move law, as the code has it. Move-constructing from \<open>g\<close> on thread \<open>c\<close> yields a new
  guard with the payload of \<open>g\<close> that is unbound if \<open>g\<close> was unbound and is otherwise bound
  to \<open>c\<close>, the thread that performs the move. The binding state is carried over unchanged
  exactly when \<open>g\<close> was unbound or was bound to the moving thread. Afterwards \<open>g\<close> reports
  \<^verbatim>\<open>is_unbound() == true\<close>. (Move assignment, lines 146-157, calls \<^verbatim>\<open>set_owner_id_\<close>, which
  the class does not declare; it is not modelled.)
\<close>

theorem move_law:
  "(fst (is_unbound a g) \<longrightarrow> fst (is_unbound a (fst (ThreadBound_move mf c g))))
   \<and> (\<not> fst (is_unbound a g) \<longrightarrow>
        fst (get_owner_id a (fst (ThreadBound_move mf c g))) = this_thread_get_id c)
   \<and> (fst (get_owner_id a (fst (ThreadBound_move mf c g))) = fst (get_owner_id a g)
        \<longleftrightarrow> fst (is_unbound a g) \<or> fst (get_owner_id a g) = this_thread_get_id c)
   \<and> object (fst (ThreadBound_move mf c g)) = object g
   \<and> fst (is_unbound a (snd (ThreadBound_move mf c g)))"
  by (auto simp add: ThreadBound_move_simp this_thread_get_id_def)

theorem move_law_witness:
  "fst (is_unbound 1 (make_thread_bound_defer (42::int)))
   \<and> fst (is_unbound 1 (fst (ThreadBound_move (\<lambda>v. v) 2 (make_thread_bound_defer (42::int)))))
   \<and> \<not> fst (is_unbound 1 (make_thread_bound 1 (42::int)))
   \<and> fst (get_owner_id 1 (fst (ThreadBound_move (\<lambda>v. v) 2 (make_thread_bound 1 (42::int))))) = ThreadId 2
   \<and> fst (get_owner_id 1 (fst (ThreadBound_move (\<lambda>v. v) 1 (make_thread_bound 1 (42::int))))) = ThreadId 1
   \<and> object (fst (ThreadBound_move (\<lambda>v. v) 2 (make_thread_bound 1 (42::int)))) = 42
   \<and> fst (is_unbound 1 (snd (ThreadBound_move (\<lambda>v. v) 2 (make_thread_bound 1 (42::int)))))"
  using move_law [of 1 "make_thread_bound_defer (42::int)" "\<lambda>v. v" 2]
    move_law [of 1 "make_thread_bound 1 (42::int)" "\<lambda>v. v" 2]
    move_law [of 1 "make_thread_bound 1 (42::int)" "\<lambda>v. v" 1]
  by (simp add: make_thread_bound_def make_thread_bound_defer_def ThreadBound_ctor_def
      ThreadBound_ctor_defer_def this_thread_get_id_def)

text \<open>
  The move law as the spec states it fails: a guard made on thread 1, hence bound to
  thread 1, and moved by thread 2 gives a new guard bound to thread 2.
\<close>

theorem move_law_counterexample:
  "fst (get_owner_id 2 (fst (ThreadBound_move (\<lambda>v. v) 2 (make_thread_bound 1 (42::int)))))
     \<noteq> fst (get_owner_id 2 (make_thread_bound 1 (42::int)))"
  by (simp add: ThreadBound_move_simp make_thread_bound_def ThreadBound_ctor_def
      this_thread_get_id_def)

section \<open>Properties of the capability classifier\<close>

lemma remove_cvref_t_const_ref [simp]: "remove_cvref_t (LRef (Const T)) = T"
  by (simp add: remove_cvref_t_def)

lemma movable_tagged_header_only:
  "movable header_only U \<and> send_tag_v header_only U \<longleftrightarrow> U = IntT"
  by (cases U) (simp_all add: header_only_def)

lemma Synced_never_Send: "\<not> Send E (SyncedT T M)"
  by (simp add: remove_cvref_t_def)

text \<open>
  C4, the registration of the lock owner, as the code has it. For a payload type \<open>T\<close> that
  satisfies \<^verbatim>\<open>Send\<close> and a type \<open>M\<close> that satisfies \<^verbatim>\<open>Mutex\<close>, the tag \<^verbatim>\<open>send_tag_v\<close> is true
  for \<^verbatim>\<open>Synced<T, M>\<close>, for \<^verbatim>\<open>Synced<T, M>&\<close> and for \<^verbatim>\<open>const Synced<T, M>&\<close>, so
  \<^verbatim>\<open>Synced<T, M>\<close> satisfies \<^verbatim>\<open>Sync\<close>. It does not satisfy \<^verbatim>\<open>Send\<close>: \<^verbatim>\<open>Send\<close> also asks for
  \<^verbatim>\<open>std::movable\<close>, and the move operations of \<^verbatim>\<open>Synced\<close> are deleted.
\<close>

theorem Synced_registration:
  "Send E T \<Longrightarrow> Mutex E M \<Longrightarrow>
     send_tag_v E (SyncedT T M) \<and> send_tag_v E (LRef (SyncedT T M))
     \<and> send_tag_v E (LRef (Const (SyncedT T M)))
     \<and> Sync E (SyncedT T M)
     \<and> \<not> movable E (SyncedT T M) \<and> \<not> Send E (SyncedT T M)"
proof -
  assume a: "Send E T" "Mutex E M"
  have tags: "send_tag_v E (SyncedT T M) \<and> send_tag_v E (LRef (SyncedT T M))
      \<and> send_tag_v E (LRef (Const (SyncedT T M)))"
    using a by (simp del: Send.simps)
  moreover have "Sync E (SyncedT T M)"
    using tags by (simp add: Sync_def remove_cvref_t_def del: Send.simps send_tag_v.simps)
  moreover have "\<not> movable E (SyncedT T M)" by simp
  moreover have "\<not> Send E (SyncedT T M)" by (rule Synced_never_Send)
  ultimately show ?thesis by blast
qed

theorem Synced_registration_witness:
  "Send header_only IntT \<and> Mutex header_only StdMutexT
   \<and> send_tag_v header_only (SyncedT IntT StdMutexT)
   \<and> send_tag_v header_only (LRef (Const (SyncedT IntT StdMutexT)))
   \<and> Sync header_only (SyncedT IntT StdMutexT)
   \<and> \<not> Send header_only (SyncedT IntT StdMutexT)"
  using Synced_registration [of header_only IntT StdMutexT]
  by (simp add: remove_cvref_t_def)

text \<open>
  The claim as the spec states it fails for \<^verbatim>\<open>Synced<int, std::mutex>\<close>: \<^verbatim>\<open>int\<close> satisfies
  \<^verbatim>\<open>Send\<close>, \<^verbatim>\<open>std::mutex\<close> satisfies \<^verbatim>\<open>Mutex\<close>, and the lock owner does not satisfy \<^verbatim>\<open>Send\<close>.
\<close>

theorem Synced_Send_counterexample:
  "Send header_only IntT \<and> Mutex header_only StdMutexT
   \<and> \<not> Send header_only (SyncedT IntT StdMutexT)"
  by (simp add: remove_cvref_t_def)

text \<open>
  C5, the predicate \<^verbatim>\<open>Send\<close>, as the code has it. \<^verbatim>\<open>Send<T>\<close> holds if and only if the type
  \<^verbatim>\<open>T\<close> with its reference and top-level const removed is movable and is tagged by
  \<^verbatim>\<open>send_tag_v\<close>. For a \<^verbatim>\<open>T\<close> without such qualifiers this is: \<^verbatim>\<open>T\<close> is movable and tagged. A
  type whose stripped form is not tagged is not \<^verbatim>\<open>Send\<close>. With the registrations of the
  header alone, the types that satisfy \<^verbatim>\<open>Send\<close> are \<^verbatim>\<open>int\<close> and its qualified forms.
\<close>

theorem Send_definition:
  "(Send E T \<longleftrightarrow> movable E (remove_cvref_t T) \<and> send_tag_v E (remove_cvref_t T))
   \<and> (remove_cvref_t T = T \<longrightarrow> (Send E T \<longleftrightarrow> movable E T \<and> send_tag_v E T))
   \<and> (\<not> send_tag_v E (remove_cvref_t T) \<longrightarrow> \<not> Send E T)
   \<and> (Send header_only T \<longleftrightarrow> remove_cvref_t T = IntT)"
  using movable_tagged_header_only [of "remove_cvref_t T"] by auto

theorem Send_definition_witness:
  "remove_cvref_t (ThreadBoundT IntT) = ThreadBoundT IntT
   \<and> movable header_only (ThreadBoundT IntT)
   \<and> \<not> send_tag_v header_only (remove_cvref_t (ThreadBoundT IntT))
   \<and> \<not> Send header_only (ThreadBoundT IntT)
   \<and> remove_cvref_t IntT = IntT \<and> Send header_only IntT"
  using Send_definition [of header_only "ThreadBoundT IntT"] Send_definition [of header_only IntT]
  by (simp add: remove_cvref_t_def header_only_def)

text \<open>
  The claim as the spec states it, for every type, fails for \<^verbatim>\<open>int&\<close>: it satisfies
  \<^verbatim>\<open>Send\<close>, it is not movable, and \<^verbatim>\<open>send_tag_v<int&>\<close> is the primary template, false.
\<close>

theorem Send_definition_counterexample:
  "Send header_only (LRef IntT) \<and> \<not> movable header_only (LRef IntT)
   \<and> \<not> send_tag_v header_only (LRef IntT)"
  by (simp add: remove_cvref_t_def header_only_def)

text \<open>
  C6, the predicate \<^verbatim>\<open>Sync\<close>, as the code has it. \<^verbatim>\<open>Sync<T>\<close> holds if and only if the tag
  \<^verbatim>\<open>send_tag_v\<close> itself is true for the type \<^verbatim>\<open>const std::remove_cvref_t<T>&\<close>. That is not
  the concept \<^verbatim>\<open>Send\<close> applied to the const reference: \<^verbatim>\<open>Send\<close> strips the const reference
  before it reads the tag and asks for movability, so \<^verbatim>\<open>Send<const T&>\<close> is \<^verbatim>\<open>Send<T>\<close>.
\<close>

theorem Sync_definition:
  "(Sync E T \<longleftrightarrow> send_tag_v E (LRef (Const (remove_cvref_t T))))
   \<and> (Send E (LRef (Const (remove_cvref_t T))) \<longleftrightarrow> Send E T)"
  by (simp add: Sync_def)

text \<open>
  The equivalence the spec states fails in both directions: \<^verbatim>\<open>int\<close> is not \<^verbatim>\<open>Sync\<close> while
  \<^verbatim>\<open>const int&\<close> is \<^verbatim>\<open>Send\<close>, and \<^verbatim>\<open>Synced<int, std::mutex>\<close> is \<^verbatim>\<open>Sync\<close> while its const
  reference is not \<^verbatim>\<open>Send\<close>.
\<close>

theorem Sync_definition_counterexample:
  "\<not> Sync header_only IntT \<and> Send header_only (LRef (Const IntT))
   \<and> Sync header_only (SyncedT IntT StdMutexT)
   \<and> \<not> Send header_only (LRef (Const (SyncedT IntT StdMutexT)))"
  by (simp add: Sync_def remove_cvref_t_def header_only_def)

section \<open>Properties of the lock owner and its guard\<close>

lemma Synced_lock_free:
  "mutexes mem (mutex_priv s) = Some False \<Longrightarrow>
     Synced_lock mem s =
       Some (\<lparr>ref_priv = owned_priv s, lock_priv = mutex_priv s\<rparr>,
             mem\<lparr>mutexes := (mutexes mem)(mutex_priv s \<mapsto> True)\<rparr>)"
  by (simp add: Synced_lock_def Locked_ctor_def mutex_lock_def)

lemma Synced_lock_held: "mutexes mem (mutex_priv s) = Some True \<Longrightarrow> Synced_lock mem s = None"
  by (simp add: Synced_lock_def Locked_ctor_def mutex_lock_def)

lemma Synced_lock_frame:
  "Synced_lock mem s = Some (g, mem1) \<Longrightarrow>
     payloads mem1 = payloads mem \<and> ref_priv g = owned_priv s \<and> lock_priv g = mutex_priv s"
  by (auto simp add: Synced_lock_def Locked_ctor_def mutex_lock_def
      split: option.splits bool.splits)

lemma Locked_dtor_frame: "payloads (Locked_dtor mem g) = payloads mem"
  by (simp add: Locked_dtor_def mutex_unlock_def)

text \<open>
  C10, a guard aliases the payload of its owner. On an owner \<open>s\<close> whose mutex is free,
  \<^verbatim>\<open>lock()\<close> returns a guard whose \<^verbatim>\<open>operator*\<close> and \<^verbatim>\<open>operator->\<close> designate the member
  \<^verbatim>\<open>owned_\<close> of \<open>s\<close> itself. A value \<open>v\<close> written through the guard is the payload of \<open>s\<close>
  after the guard is destroyed, and the guard that the next \<^verbatim>\<open>lock()\<close> returns reads \<open>v\<close>.
\<close>

theorem guard_aliases_owner:
  assumes free: "mutexes mem (mutex_priv s) = Some False"
  shows "\<exists>g mem1. Synced_lock mem s = Some (g, mem1)
           \<and> Locked_deref g = owned_priv s \<and> Locked_arrow g = owned_priv s
           \<and> load mem1 (Locked_deref g) = load mem (owned_priv s)
           \<and> (\<forall>v. load (Locked_dtor (store mem1 (Locked_deref g) v) g) (owned_priv s) = Some v
                \<and> (\<exists>g2 mem2. Synced_lock (Locked_dtor (store mem1 (Locked_deref g) v) g) s
                                 = Some (g2, mem2)
                      \<and> load mem2 (Locked_deref g2) = Some v))"
proof -
  let ?g = "\<lparr>ref_priv = owned_priv s, lock_priv = mutex_priv s\<rparr>"
  let ?mem1 = "mem\<lparr>mutexes := (mutexes mem)(mutex_priv s \<mapsto> True)\<rparr>"
  have l1: "Synced_lock mem s = Some (?g, ?mem1)"
    using free by (rule Synced_lock_free)
  have d: "Locked_deref ?g = owned_priv s" "Locked_arrow ?g = owned_priv s"
    by (simp_all add: Locked_deref_def Locked_arrow_def)
  have r: "load ?mem1 (Locked_deref ?g) = load mem (owned_priv s)"
    by (simp add: load_def Locked_deref_def)
  have w: "load (Locked_dtor (store ?mem1 (Locked_deref ?g) v) ?g) (owned_priv s) = Some v
           \<and> (\<exists>g2 mem2. Synced_lock (Locked_dtor (store ?mem1 (Locked_deref ?g) v) ?g) s
                            = Some (g2, mem2)
                 \<and> load mem2 (Locked_deref g2) = Some v)" for v
  proof -
    let ?mem3 = "Locked_dtor (store ?mem1 (Locked_deref ?g) v) ?g"
    have p: "payloads ?mem3 (owned_priv s) = Some v"
      by (simp add: Locked_dtor_frame store_def Locked_deref_def)
    have f: "mutexes ?mem3 (mutex_priv s) = Some False"
      by (simp add: Locked_dtor_def mutex_unlock_def)
    from f have l2: "Synced_lock ?mem3 s =
        Some (?g, ?mem3\<lparr>mutexes := (mutexes ?mem3)(mutex_priv s \<mapsto> True)\<rparr>)"
      by (rule Synced_lock_free)
    have "load (?mem3\<lparr>mutexes := (mutexes ?mem3)(mutex_priv s \<mapsto> True)\<rparr>) (Locked_deref ?g) = Some v"
      using p by (simp add: load_def Locked_deref_def)
    with l2 p show ?thesis unfolding load_def by blast
  qed
  from l1 d r w show ?thesis by blast
qed

text \<open>
  The witness: on the example owner, whose payload is 42 at address 1, the guard designates
  address 1 and reads 42; after 92 is written through it and it is destroyed, the owner
  holds 92 and the next guard reads 92.
\<close>

theorem guard_aliases_owner_witness:
  "mutexes (snd example_synced) (mutex_priv (fst example_synced)) = Some False
   \<and> (\<exists>g mem1. Synced_lock (snd example_synced) (fst example_synced) = Some (g, mem1)
        \<and> Locked_deref g = 1
        \<and> load mem1 (Locked_deref g) = Some 42
        \<and> load (Locked_dtor (store mem1 (Locked_deref g) 92) g) 1 = Some 92
        \<and> (\<exists>g2 mem2. Synced_lock (Locked_dtor (store mem1 (Locked_deref g) 92) g)
                           (fst example_synced) = Some (g2, mem2)
              \<and> load mem2 (Locked_deref g2) = Some 92))"
proof -
  have free: "mutexes (snd example_synced) (mutex_priv (fst example_synced)) = Some False"
    by (simp add: example_synced_def Synced_ctor_def empty_memory_def)
  have o: "owned_priv (fst example_synced) = 1"
    by (simp add: example_synced_def Synced_ctor_def)
  have v: "load (snd example_synced) 1 = Some 42"
    by (simp add: example_synced_def Synced_ctor_def load_def)
  from guard_aliases_owner [OF free] obtain g mem1 where
    h: "Synced_lock (snd example_synced) (fst example_synced) = Some (g, mem1)"
      "Locked_deref g = 1" "load mem1 (Locked_deref g) = Some 42"
      "\<forall>v. load (Locked_dtor (store mem1 (Locked_deref g) v) g) 1 = Some v
            \<and> (\<exists>g2 mem2. Synced_lock (Locked_dtor (store mem1 (Locked_deref g) v) g)
                               (fst example_synced) = Some (g2, mem2)
                  \<and> load mem2 (Locked_deref g2) = Some v)"
    unfolding o v by blast
  from h(4) have "load (Locked_dtor (store mem1 (Locked_deref g) 92) g) 1 = Some 92
      \<and> (\<exists>g2 mem2. Synced_lock (Locked_dtor (store mem1 (Locked_deref g) 92) g)
                         (fst example_synced) = Some (g2, mem2)
            \<and> load mem2 (Locked_deref g2) = Some 92)"
    by blast
  with free h(1,2,3) show ?thesis by blast
qed

section \<open>Mutual exclusion\<close>

lemma exclusive_cases:
  "exclusive s st \<longleftrightarrow>
     (live st = [] \<and> mutexes (sys_mem st) (mutex_priv s) = Some False)
     \<or> (\<exists>t. live st = [(t, \<lparr>ref_priv = owned_priv s, lock_priv = mutex_priv s\<rparr>)]
           \<and> mutexes (sys_mem st) (mutex_priv s) = Some True)"
  by (auto simp add: exclusive_def split: list.splits)

lemma Synced_step_exclusive:
  assumes "exclusive s st"
  shows "exclusive s (Synced_step s st ev)"
proof (cases ev)
  case (Acquire t)
  from assms show ?thesis
    unfolding exclusive_cases
  proof (elim disjE conjE exE)
    assume "live st = []" and f: "mutexes (sys_mem st) (mutex_priv s) = Some False"
    then show "(live (Synced_step s st ev) = [] \<and> mutexes (sys_mem (Synced_step s st ev)) (mutex_priv s) = Some False)
     \<or> (\<exists>t. live (Synced_step s st ev) = [(t, \<lparr>ref_priv = owned_priv s, lock_priv = mutex_priv s\<rparr>)]
           \<and> mutexes (sys_mem (Synced_step s st ev)) (mutex_priv s) = Some True)"
      by (simp add: Acquire Synced_step_def sched_step_def Synced_lock_free)
  next
    fix u assume "live st = [(u, \<lparr>ref_priv = owned_priv s, lock_priv = mutex_priv s\<rparr>)]"
      and h: "mutexes (sys_mem st) (mutex_priv s) = Some True"
    then show "(live (Synced_step s st ev) = [] \<and> mutexes (sys_mem (Synced_step s st ev)) (mutex_priv s) = Some False)
     \<or> (\<exists>t. live (Synced_step s st ev) = [(t, \<lparr>ref_priv = owned_priv s, lock_priv = mutex_priv s\<rparr>)]
           \<and> mutexes (sys_mem (Synced_step s st ev)) (mutex_priv s) = Some True)"
      by (simp add: Acquire Synced_step_def sched_step_def Synced_lock_held)
  qed
next
  case (Destroy t)
  from assms consider
      (none) "live st = []" "mutexes (sys_mem st) (mutex_priv s) = Some False"
    | (one) u where "live st = [(u, \<lparr>ref_priv = owned_priv s, lock_priv = mutex_priv s\<rparr>)]"
        "mutexes (sys_mem st) (mutex_priv s) = Some True"
    unfolding exclusive_cases by blast
  then show ?thesis
  proof cases
    case none
    then have "Synced_step s st ev = st"
      by (simp add: Destroy Synced_step_def sched_step_def)
    with assms show ?thesis by simp
  next
    case one
    show ?thesis
    proof (cases "u = t")
      case True
      with one show ?thesis
        by (simp add: Destroy Synced_step_def sched_step_def Locked_dtor_def mutex_unlock_def
            exclusive_cases)
    next
      case False
      with one have "Synced_step s st ev = st"
        by (simp add: Destroy Synced_step_def sched_step_def)
      with assms show ?thesis by simp
    qed
  qed
qed

lemma Synced_run_exclusive:
  "mutexes mem (mutex_priv s) = Some False \<Longrightarrow> exclusive s (Synced_run s mem evs)"
proof (induction evs rule: rev_induct)
  case Nil
  then show ?case by (simp add: Synced_run_def exclusive_cases)
next
  case (snoc ev evs)
  then have "exclusive s (Synced_run s mem evs)" by simp
  then have "exclusive s (Synced_step s (Synced_run s mem evs) ev)"
    by (rule Synced_step_exclusive)
  then show ?case by (simp add: Synced_run_def)
qed

text \<open>
  C7, mutual exclusion, as the code has it. For a lock owner \<open>s\<close> over \<^verbatim>\<open>std::mutex\<close> whose
  mutex is free and over which no guard is live, and for every schedule of \<^verbatim>\<open>lock()\<close> calls
  and guard destructions by any number of threads: after the schedule, that is at every
  instant of every run, at most one guard is live, and a live guard is a guard over \<open>s\<close>.
  A call of \<^verbatim>\<open>lock()\<close> made while a guard is live changes nothing, it is granted only once
  no guard is live; hence the lifetimes of the guards granted over \<open>s\<close> are pairwise
  disjoint.
\<close>

theorem mutual_exclusion:
  assumes free: "mutexes mem (mutex_priv s) = Some False"
  shows "length (live (Synced_run s mem evs)) \<le> 1
         \<and> (\<forall>h \<in> set (live (Synced_run s mem evs)).
               ref_priv (snd h) = owned_priv s \<and> lock_priv (snd h) = mutex_priv s)
         \<and> (live (Synced_run s mem evs) \<noteq> [] \<longrightarrow>
               Synced_run s mem (evs @ [Acquire t]) = Synced_run s mem evs)
         \<and> (live (Synced_run s mem evs) = [] \<longrightarrow>
               live (Synced_run s mem (evs @ [Acquire t])) = [(t, \<lparr>ref_priv = owned_priv s, lock_priv = mutex_priv s\<rparr>)])"
proof -
  have e: "exclusive s (Synced_run s mem evs)"
    using free by (rule Synced_run_exclusive)
  have r: "Synced_run s mem (evs @ [Acquire t]) = Synced_step s (Synced_run s mem evs) (Acquire t)"
    by (simp add: Synced_run_def)
  from e show ?thesis
    unfolding r exclusive_cases
    by (auto simp add: Synced_step_def sched_step_def Synced_lock_held Synced_lock_free)
qed

text \<open>
  The witness: on the example owner, thread 1 acquires, thread 2 calls \<^verbatim>\<open>lock()\<close> and waits,
  thread 1 destroys its guard, and the call of thread 2 returns. The one live guard is that
  of thread 2, and a call by thread 3 is not granted.
\<close>

lemma example_schedule_run:
  "live (Synced_run (fst example_synced) (snd example_synced)
          [Acquire 1, Acquire 2, Destroy 1, Acquire 2])
     = [(2, \<lparr>ref_priv = 1, lock_priv = 0\<rparr>)]"
  by (simp add: Synced_run_def Synced_step_def sched_step_def example_synced_def Synced_ctor_def
      empty_memory_def Synced_lock_def Locked_ctor_def mutex_lock_def Locked_dtor_def
      mutex_unlock_def)

theorem mutual_exclusion_witness:
  "mutexes (snd example_synced) (mutex_priv (fst example_synced)) = Some False
   \<and> length (live (Synced_run (fst example_synced) (snd example_synced)
                  [Acquire 1, Acquire 2, Destroy 1, Acquire 2])) \<le> 1
   \<and> live (Synced_run (fst example_synced) (snd example_synced)
            [Acquire 1, Acquire 2, Destroy 1, Acquire 2]) = [(2, \<lparr>ref_priv = 1, lock_priv = 0\<rparr>)]
   \<and> Synced_run (fst example_synced) (snd example_synced)
         ([Acquire 1, Acquire 2, Destroy 1, Acquire 2] @ [Acquire 3])
       = Synced_run (fst example_synced) (snd example_synced)
           [Acquire 1, Acquire 2, Destroy 1, Acquire 2]
   \<and> live (Synced_run (fst example_synced) (snd example_synced) []) = []
   \<and> live (Synced_run (fst example_synced) (snd example_synced) ([] @ [Acquire 3]))
       = [(3, \<lparr>ref_priv = 1, lock_priv = 0\<rparr>)]"
proof -
  have free: "mutexes (snd example_synced) (mutex_priv (fst example_synced)) = Some False"
    by (simp add: example_synced_def Synced_ctor_def empty_memory_def)
  have o: "owned_priv (fst example_synced) = 1" "mutex_priv (fst example_synced) = 0"
    by (simp_all add: example_synced_def Synced_ctor_def)
  have e: "live (Synced_run (fst example_synced) (snd example_synced) []) = []"
    by (simp add: Synced_run_def)
  show ?thesis
    using free e example_schedule_run
      mutual_exclusion [OF free, of "[Acquire 1, Acquire 2, Destroy 1, Acquire 2]" 3]
      mutual_exclusion [OF free, of "[]" 3]
    unfolding o by simp
qed

text \<open>
  The claim as the spec states it, for every lock owner, fails for an owner over
  \<^verbatim>\<open>std::recursive_mutex\<close>: thread 1 calls \<^verbatim>\<open>lock()\<close> twice and holds two live guards.
\<close>

theorem mutual_exclusion_counterexample:
  "length (live (Synced_run_recursive (fst example_synced_recursive)
      (snd example_synced_recursive) [Acquire 1, Acquire 1])) = 2
   \<and> map fst (live (Synced_run_recursive (fst example_synced_recursive)
      (snd example_synced_recursive) [Acquire 1, Acquire 1])) = [1, 1]"
  by (simp add: Synced_run_recursive_def sched_step_def example_synced_recursive_def
      Synced_ctor_recursive_def Synced_lock_recursive_def Locked_ctor_recursive_def
      recursive_mutex_lock_def)

end
